theory Spec2Isabelle
  imports Complex_Main
begin

section \<open>The quant core of the volatility-surface dashboard\<close>

text \<open>
  This theory embeds the callback \<^verbatim>\<open>update_surface\<close> of \<^verbatim>\<open>goldIV.py\<close>: spot
  ingestion, the option-chain scanner with its moneyness band, the mesh and the
  radial-basis surface, and the skew statistics with the regime label.

  Python floats are modelled as the reals of HOL: every comparison and every arithmetic
  step of the source is kept, rounding and the non-finite values are not represented.
  Calendar dates are day ordinals (integers), so that the difference of two dates is
  the \<^verbatim>\<open>.days\<close> of the source.
\<close>

subsection \<open>Data model\<close>

text \<open>
  The exceptions the callback can meet. The first four are raised by the Python the
  source runs; the last four are the kinds of the specification's taxonomy, which no
  function of the source produces.
\<close>

datatype error =
    KeyError string
  | IndexError
  | UnboundLocalError string
  | RbfFailure
  | InputUnavailableError
  | InsufficientDataError
  | NoNearTermDataError
  | NumericInstabilityError

text \<open>One row of \<^verbatim>\<open>chain.calls\<close>, with the two columns the source reads.\<close>

record raw_quote =
  strike :: real
  impliedVolatility :: real

text \<open>
  One entry of \<^verbatim>\<open>raw_points\<close>: the dictionary with the keys \<^verbatim>\<open>'x'\<close>, \<^verbatim>\<open>'y'\<close>
  and \<^verbatim>\<open>'z'\<close>. The data frame \<^verbatim>\<open>df\<close> is the list of these rows in insertion order.
\<close>

record observation =
  obs_x :: int
  obs_y :: real
  obs_z :: real

text \<open>
  What the callback reads from \<^verbatim>\<open>yf.Ticker("GLD")\<close>: the closing prices of
  \<^verbatim>\<open>history(period="1d")\<close>, the listed expirations and, for each of them, the calls of
  its chain.
\<close>

record ticker =
  hist_Close :: "real list"
  options :: "int list"
  option_chain_calls :: "int \<Rightarrow> raw_quote list"

subsection \<open>1. Data ingestion\<close>

text \<open>
  \<^verbatim>\<open>if manual_price:\<close> is Python truthiness: \<^verbatim>\<open>None\<close> and zero are false.
\<close>

definition truthy :: "real option \<Rightarrow> bool" where
  "truthy manual_price = (case manual_price of None \<Rightarrow> False | Some p \<Rightarrow> p \<noteq> 0)"

text \<open>\<^verbatim>\<open>hist['Close'].iloc[-1]\<close> raises on an empty series.\<close>

definition iloc_last :: "real list \<Rightarrow> error + real" where
  "iloc_last xs = (if xs = [] then Inl IndexError else Inr (last xs))"

definition data_ingestion :: "real option \<Rightarrow> ticker \<Rightarrow> error + (real \<times> string)" where
  "data_ingestion manual_price t =
     (if truthy manual_price then Inr (the manual_price, ''MANUAL'')
      else (case iloc_last (hist_Close t) of
              Inl e \<Rightarrow> Inl e
            | Inr c \<Rightarrow> Inr (c * 10.885, ''FEED'')))"

subsection \<open>2. Option chain scanner\<close>

definition mask :: "real \<Rightarrow> raw_quote \<Rightarrow> bool" where
  "mask spot row \<longleftrightarrow> strike row * 10.885 > spot * 0.85 \<and> strike row * 10.885 < spot * 1.15"

definition raw_point :: "int \<Rightarrow> raw_quote \<Rightarrow> observation" where
  "raw_point days row =
     \<lparr>obs_x = days, obs_y = strike row * 10.885, obs_z = impliedVolatility row\<rparr>"

text \<open>The body of the loop for one expiration: the rows of \<^verbatim>\<open>calls[mask]\<close>, in order.\<close>

definition chain_points :: "int \<Rightarrow> real \<Rightarrow> raw_quote list \<Rightarrow> observation list" where
  "chain_points days spot calls = map (raw_point days) (filter (mask spot) calls)"

text \<open>The slice \<^verbatim>\<open>ticker.options[1:5]\<close>.\<close>

definition scanned_expirations :: "ticker \<Rightarrow> int list" where
  "scanned_expirations t = take 4 (drop 1 (options t))"

definition option_chain_scanner :: "ticker \<Rightarrow> int \<Rightarrow> real \<Rightarrow> observation list" where
  "option_chain_scanner t today spot =
     concat (map (\<lambda>exp. chain_points (exp - today) spot (option_chain_calls t exp))
                 (scanned_expirations t))"

subsection \<open>3. RBF interpolation\<close>

text \<open>
  \<^verbatim>\<open>df = pd.DataFrame(raw_points)\<close> has no columns when \<^verbatim>\<open>raw_points\<close> is empty, and
  selecting a column of it raises \<^verbatim>\<open>KeyError\<close>.
\<close>

definition column_x :: "observation list \<Rightarrow> error + int list" where
  "column_x df = (if df = [] then Inl (KeyError ''x'') else Inr (map obs_x df))"

text \<open>
  \<^verbatim>\<open>np.linspace(start, stop, num)\<close> with its default end point: \<^verbatim>\<open>num\<close> samples with
  the step \<^verbatim>\<open>(stop - start) / (num - 1)\<close>, the last one set to \<^verbatim>\<open>stop\<close> when
  there is more than one.
\<close>

definition linspace :: "real \<Rightarrow> real \<Rightarrow> nat \<Rightarrow> real list" where
  "linspace start stop num =
     (let ys = map (\<lambda>i. start + real i * ((stop - start) / real (num - 1))) [0..<num]
      in if num > 1 then ys[num - 1 := stop] else ys)"

text \<open>
  \<^verbatim>\<open>np.meshgrid(ti_x, ti_y)\<close> in its default indexing: both results have one row for
  each element of \<^verbatim>\<open>ti_y\<close> and one column for each element of \<^verbatim>\<open>ti_x\<close>.
\<close>

definition meshgrid :: "real list \<Rightarrow> real list \<Rightarrow> real list list \<times> real list list" where
  "meshgrid ti_x ti_y =
     (map (\<lambda>_. ti_x) ti_y, map (\<lambda>v. map (\<lambda>_. v) ti_x) ti_y)"

text \<open>
  Modelled from the spec: \<^verbatim>\<open>scipy.interpolate.Rbf\<close> is a library class, not part of the
  source. The specification describes it as the interpolant with the linear radial
  kernel (the kernel value is the Euclidean distance between centres, no smoothing)
  whose weights solve the linear system of the kernel matrix, and as failing when that
  system is singular. The solve is Gaussian elimination with partial pivoting in exact
  arithmetic; every exception raised inside the constructor is the one error
  \<^const>\<open>RbfFailure\<close>.
\<close>

definition euclidean :: "real \<times> real \<Rightarrow> real \<times> real \<Rightarrow> real" where
  "euclidean p q = sqrt ((fst p - fst q)\<^sup>2 + (snd p - snd q)\<^sup>2)"

definition kernel_matrix :: "(real \<times> real) list \<Rightarrow> real list list" where
  "kernel_matrix ps = map (\<lambda>p. map (euclidean p) ps) ps"

fun argmax_abs :: "real list \<Rightarrow> nat" where
  "argmax_abs [] = 0"
| "argmax_abs [a] = 0"
| "argmax_abs (a # b # bs) =
     (let k = argmax_abs (b # bs) in if \<bar>a\<bar> \<ge> \<bar>(b # bs) ! k\<bar> then 0 else Suc k)"

definition dot :: "real list \<Rightarrow> real list \<Rightarrow> real" where
  "dot u v = sum_list (map2 (*) u v)"

text \<open>
  A row of the system is its coefficients and its right-hand side. Eliminating the
  first unknown from \<open>r\<close> with the pivot row \<open>p\<close> leaves a row in the other unknowns.
\<close>

definition eliminate :: "real list \<times> real \<Rightarrow> real list \<times> real \<Rightarrow> real list \<times> real" where
  "eliminate p r =
     (let f = hd (fst r) / hd (fst p)
      in (map2 (\<lambda>a b. b - f * a) (tl (fst p)) (tl (fst r)), snd r - f * snd p))"

text \<open>
  Modelled from the spec: the solve of the kernel system, which the specification has
  fail on a singular system. The first argument is the number of unknowns. The pivot is
  the first row whose leading coefficient is largest in absolute value; no pivot means
  a singular system.
\<close>

fun solve_rows :: "nat \<Rightarrow> (real list \<times> real) list \<Rightarrow> real list option" where
  "solve_rows 0 rows = Some []"
| "solve_rows (Suc n) rows =
     (if rows = [] then None
      else
        let k = argmax_abs (map (\<lambda>r. hd (fst r)) rows);
            p = rows ! k;
            rest = take k rows @ drop (Suc k) rows
        in if hd (fst p) = 0 then None
           else (case solve_rows n (map (eliminate p) rest) of
                   None \<Rightarrow> None
                 | Some ws \<Rightarrow> Some ((snd p - dot (tl (fst p)) ws) / hd (fst p) # ws)))"

definition linalg_solve :: "real list list \<Rightarrow> real list \<Rightarrow> real list option" where
  "linalg_solve A b = solve_rows (length A) (zip A b)"

record rbf =
  xi :: "(real \<times> real) list"
  nodes :: "real list"

text \<open>
  Modelled from the spec: the constructor \<^verbatim>\<open>Rbf(x, y, d, function='linear')\<close>. The
  three arrays must have equal lengths; the centres are the pairs \<^verbatim>\<open>(x, y)\<close> and the
  weights solve the kernel system for the values \<^verbatim>\<open>d\<close>.
\<close>

definition Rbf :: "real list \<Rightarrow> real list \<Rightarrow> real list \<Rightarrow> error + rbf" where
  "Rbf xs ys ds =
     (if length xs = length ds \<and> length ys = length ds
      then
        let ps = zip xs ys in
        case linalg_solve (kernel_matrix ps) ds of
          None \<Rightarrow> Inl RbfFailure
        | Some ws \<Rightarrow> Inr \<lparr>xi = ps, nodes = ws\<rparr>
      else Inl RbfFailure)"

text \<open>
  Modelled from the spec: the value of the interpolant at one point, the kernel row of
  the point times the weights; calling the interpolant on a mesh evaluates it point by
  point and keeps the shape of the mesh.
\<close>

definition Rbf_at :: "rbf \<Rightarrow> real \<Rightarrow> real \<Rightarrow> real" where
  "Rbf_at r u v = dot (map (euclidean (u, v)) (xi r)) (nodes r)"

definition Rbf_call :: "rbf \<Rightarrow> real list list \<Rightarrow> real list list \<Rightarrow> real list list" where
  "Rbf_call r XI YI = map2 (map2 (Rbf_at r)) XI YI"

record grid =
  XI :: "real list list"
  YI :: "real list list"
  ZI :: "real list list"

text \<open>
  Lines 129 to 135 of the source. \<^verbatim>\<open>df['x']\<close> is the first thing evaluated, so an
  empty frame raises there; on a non-empty frame the three columns exist.
\<close>

definition rbf_interpolation :: "observation list \<Rightarrow> error + grid" where
  "rbf_interpolation df =
     (case column_x df of
        Inl e \<Rightarrow> Inl e
      | Inr xs \<Rightarrow>
          let ys = map obs_y df;
              ti_x = linspace (real_of_int (Min (set xs))) (real_of_int (Max (set xs))) 30;
              ti_y = linspace (Min (set ys)) (Max (set ys)) 30;
              (XI, YI) = meshgrid ti_x ti_y
          in (case Rbf (map real_of_int xs) ys (map obs_z df) of
                Inl e \<Rightarrow> Inl e
              | Inr r \<Rightarrow> Inr \<lparr>XI = XI, YI = YI, ZI = Rbf_call r XI YI\<rparr>))"

subsection \<open>4. Regime statistics\<close>

text \<open>
  \<^verbatim>\<open>argsort\<close> is a library method, not part of the source, and the source calls it
  with its default sort, which is not stable. It is therefore an argument of the
  functions below. What is known of it is that it returns the positions of the keys in
  an order that sorts them; the order of positions with equal keys is the library's.
\<close>

definition sorts_positions :: "(real list \<Rightarrow> nat list) \<Rightarrow> bool" where
  "sorts_positions argsort \<longleftrightarrow>
     (\<forall>ks. length (argsort ks) = length ks
           \<and> set (argsort ks) = {..<length ks}
           \<and> sorted (map (\<lambda>i. ks ! i) (argsort ks)))"

text \<open>
  \<^verbatim>\<open>near_term.iloc[(near_term['y'] - target).abs().argsort()[:1]]['z']\<close>: the
  \<^verbatim>\<open>z\<close> column of the rows at the first (at most one) sorted position. The positions
  a sort returns are positions of its keys, so the selection of rows stays in range.
\<close>

definition nearest_z :: "(real list \<Rightarrow> nat list) \<Rightarrow> observation list \<Rightarrow> real \<Rightarrow> real list" where
  "nearest_z argsort near_term target =
     map (\<lambda>i. obs_z (near_term ! i))
         (take 1 (argsort (map (\<lambda>r. \<bar>obs_y r - target\<bar>) near_term)))"

text \<open>\<^verbatim>\<open>.values[0]\<close> raises on an empty selection.\<close>

definition values0 :: "real list \<Rightarrow> error + real" where
  "values0 s = (case s of [] \<Rightarrow> Inl IndexError | v # _ \<Rightarrow> Inr v)"

text \<open>
  The local variables after step 4. \<^verbatim>\<open>atm_vol\<close> and \<^verbatim>\<open>otm_vol\<close> are bound only in
  the first branch.
\<close>

record stats =
  atm_vol :: "real option"
  otm_vol :: "real option"
  skew :: real

definition regime_stats ::
  "(real list \<Rightarrow> nat list) \<Rightarrow> observation list \<Rightarrow> real \<Rightarrow> error + stats" where
  "regime_stats argsort df spot =
     (case column_x df of
        Inl e \<Rightarrow> Inl e
      | Inr xs \<Rightarrow>
          let near_term = filter (\<lambda>r. obs_x r = Min (set xs)) df in
          if near_term \<noteq> [] then
            (case values0 (nearest_z argsort near_term spot) of
               Inl e \<Rightarrow> Inl e
             | Inr atm \<Rightarrow>
                 let otm_target = spot + 300;
                     otm_vol_series = nearest_z argsort near_term otm_target;
                     otm = (if otm_vol_series \<noteq> [] then hd otm_vol_series else atm)
                 in Inr \<lparr>atm_vol = Some atm, otm_vol = Some otm, skew = otm - atm\<rparr>)
          else Inr \<lparr>atm_vol = None, otm_vol = None, skew = 0\<rparr>)"

subsection \<open>7. Regime label and colour\<close>

definition regime :: "real \<Rightarrow> string" where
  "regime s =
     (if s > 0.02 then ''BEARISH'' else if s < 0 then ''BULLISH'' else ''NEUTRAL'')"

text \<open>The colours are the entries \<^verbatim>\<open>red\<close>, \<^verbatim>\<open>green\<close> and \<^verbatim>\<open>gold\<close> of \<^verbatim>\<open>COLORS\<close>.\<close>

definition regime_color :: "real \<Rightarrow> string" where
  "regime_color s =
     (if s > 0.04 then ''#f85149'' else if s < - 0.01 then ''#2ea043'' else ''#d29922'')"

text \<open>
  The values shown by the footer. Formatting \<^verbatim>\<open>atm_vol\<close> raises when the variable was
  never bound.
\<close>

record metrics =
  m_spot :: real
  m_atm_vol :: real
  m_skew :: real
  m_regime :: string
  m_color :: string

definition metrics_output :: "real \<Rightarrow> stats \<Rightarrow> error + metrics" where
  "metrics_output spot st =
     (case atm_vol st of
        None \<Rightarrow> Inl (UnboundLocalError ''atm_vol'')
      | Some a \<Rightarrow>
          Inr \<lparr>m_spot = spot, m_atm_vol = a, m_skew = skew st,
               m_regime = regime (skew st), m_color = regime_color (skew st)\<rparr>)"

subsection \<open>The callback\<close>

text \<open>
  Steps 3, 4 and 7 on a given frame and spot: the part of the callback that reads
  nothing but the observations and the spot.
\<close>

definition quant_core ::
  "(real list \<Rightarrow> nat list) \<Rightarrow> observation list \<Rightarrow> real \<Rightarrow> error + (grid \<times> metrics)" where
  "quant_core argsort df spot =
     (case rbf_interpolation df of
        Inl e \<Rightarrow> Inl e
      | Inr g \<Rightarrow>
          (case regime_stats argsort df spot of
             Inl e \<Rightarrow> Inl e
           | Inr st \<Rightarrow>
               (case metrics_output spot st of
                  Inl e \<Rightarrow> Inl e
                | Inr m \<Rightarrow> Inr (g, m))))"

text \<open>
  The camera is the eye position stored under \<^verbatim>\<open>'scene.camera'\<close>; \<^verbatim>\<open>relayout\<close> is
  \<^verbatim>\<open>None\<close> or a dictionary.
\<close>

type_synonym camera = "real \<times> real \<times> real"

definition camera_handling :: "nat \<Rightarrow> (string \<rightharpoonup> camera) option \<Rightarrow> camera option" where
  "camera_handling lock_clicks relayout =
     (if lock_clicks mod 2 = 1
      then (case relayout of None \<Rightarrow> None | Some d \<Rightarrow> d ''scene.camera'')
      else None)"

record figure =
  surface :: grid
  scatter :: "observation list"
  scene_camera :: "camera option"
  uirevision :: string

text \<open>
  The callback, with the library sort, the ticker and today's date as arguments.
  \<^const>\<open>Inl\<close> is the \<^verbatim>\<open>except\<close> branch: the empty figure with the message
  \<^verbatim>\<open>DATA ERROR\<close>.
\<close>

definition update_surface ::
  "(real list \<Rightarrow> nat list) \<Rightarrow> nat \<Rightarrow> real option \<Rightarrow> nat \<Rightarrow> (string \<rightharpoonup> camera) option
     \<Rightarrow> ticker \<Rightarrow> int \<Rightarrow> error + (figure \<times> metrics)" where
  "update_surface argsort n manual_price lock_clicks relayout t today =
     (case data_ingestion manual_price t of
        Inl e \<Rightarrow> Inl e
      | Inr (spot, spot_source) \<Rightarrow>
          let df = option_chain_scanner t today spot in
          (case quant_core argsort df spot of
             Inl e \<Rightarrow> Inl e
           | Inr (g, m) \<Rightarrow>
               Inr (\<lparr>surface = g, scatter = df,
                     scene_camera = camera_handling lock_clicks relayout,
                     uirevision = (if lock_clicks mod 2 = 1 then ''locked'' else ''unlocked'')\<rparr>,
                    m)))"

subsection \<open>The specification's notions\<close>



text \<open>The up to four nearest expirations strictly after the as-of date.\<close>

definition nearest_future_expirations :: "int \<Rightarrow> int list \<Rightarrow> int list" where
  "nearest_future_expirations today exps = take 4 (sort (filter (\<lambda>e. today < e) exps))"

subsection \<open>Concrete inputs\<close>

text \<open>
  Two sorts of the positions by their keys. They differ on equal keys only: the first
  keeps them in input order, the second puts the later position first.
\<close>

definition argsort_first_tie :: "real list \<Rightarrow> nat list" where
  "argsort_first_tie ks = sort_key (\<lambda>i. ks ! i) [0..<length ks]"





definition scenario_steep :: "observation list" where
  "scenario_steep =
     [\<lparr>obs_x = 1, obs_y = 100, obs_z = 0.20\<rparr>, \<lparr>obs_x = 1, obs_y = 103, obs_z = 0.30\<rparr>,
      \<lparr>obs_x = 7, obs_y = 100, obs_z = 0.19\<rparr>, \<lparr>obs_x = 7, obs_y = 103, obs_z = 0.21\<rparr>]"


definition two_quotes :: "observation list" where
  "two_quotes =
     [\<lparr>obs_x = 1, obs_y = 100, obs_z = 0.20\<rparr>, \<lparr>obs_x = 4, obs_y = 104, obs_z = 0.22\<rparr>]"

text \<open>
  A feed with six listed expirations, all after day 100, each with the same three
  calls. With the spot 10885 the strikes 850 and 1150 sit exactly on the two ends of
  the band.
\<close>

definition example_calls :: "raw_quote list" where
  "example_calls =
     [\<lparr>strike = 850, impliedVolatility = 0.30\<rparr>,
      \<lparr>strike = 1000, impliedVolatility = 0.20\<rparr>,
      \<lparr>strike = 1150, impliedVolatility = 0.25\<rparr>]"

definition example_ticker :: ticker where
  "example_ticker =
     \<lparr>hist_Close = [998, 1000], options = [101, 102, 103, 104, 105, 106],
      option_chain_calls = (\<lambda>exp. example_calls)\<rparr>"

text \<open>What the scan of that feed returns on day 100 with the spot 10885.\<close>

definition scanned_example :: "observation list" where
  "scanned_example =
     [\<lparr>obs_x = 2, obs_y = 10885, obs_z = 0.20\<rparr>, \<lparr>obs_x = 3, obs_y = 10885, obs_z = 0.20\<rparr>,
      \<lparr>obs_x = 4, obs_y = 10885, obs_z = 0.20\<rparr>, \<lparr>obs_x = 5, obs_y = 10885, obs_z = 0.20\<rparr>]"

text \<open>A feed whose chain lists no expiration.\<close>

definition empty_ticker :: ticker where
  "empty_ticker = \<lparr>hist_Close = [1000], options = [], option_chain_calls = (\<lambda>exp. [])\<rparr>"

section \<open>Properties\<close>

subsection \<open>Spot ingestion\<close>

text \<open>
  C10. A non-zero manual price is the spot as it stands, with the source MANUAL and
  without the multiplier; an absent manual price and a manual price of zero both fall
  back to the last close of the feed multiplied by 10.885, with the source FEED.
\<close>

theorem manual_spot_override:
  "(manual_price = Some p \<and> p \<noteq> 0 \<longrightarrow> data_ingestion manual_price t = Inr (p, ''MANUAL''))
   \<and> ((manual_price = None \<or> manual_price = Some 0) \<and> hist_Close t \<noteq> []
        \<longrightarrow> data_ingestion manual_price t = Inr (last (hist_Close t) * 10.885, ''FEED''))"
  by (auto simp: data_ingestion_def truthy_def iloc_last_def split: option.splits)

theorem manual_spot_override_witness:
  "data_ingestion (Some 2000) example_ticker = Inr (2000, ''MANUAL'')
   \<and> data_ingestion (Some 0) example_ticker = Inr (10885, ''FEED'')
   \<and> data_ingestion None example_ticker = Inr (10885, ''FEED'')"
  using manual_spot_override [of "Some 2000" 2000 example_ticker]
    manual_spot_override [of "Some 0" 0 example_ticker]
    manual_spot_override [of None 0 example_ticker]
  by (simp add: example_ticker_def)

subsection \<open>The moneyness band\<close>

text \<open>
  C4. A row of a chain contributes its observation, with \<^verbatim>\<open>y\<close> the strike times
  10.885, exactly when \<^verbatim>\<open>y\<close> lies strictly between 0.85 and 1.15 times the spot. So
  every scanned observation lies strictly inside the band, and a row whose \<^verbatim>\<open>y\<close>
  equals one of the two ends is left out.
\<close>

theorem band_filter:
  "(row \<in> set calls \<longrightarrow>
      (raw_point days row \<in> set (chain_points days spot calls)
         \<longleftrightarrow> spot * 0.85 < strike row * 10.885 \<and> strike row * 10.885 < spot * 1.15))
   \<and> (\<forall>ob \<in> set (option_chain_scanner t today spot).
         spot * 0.85 < obs_y ob \<and> obs_y ob < spot * 1.15)
   \<and> (strike row * 10.885 = spot * 0.85 \<or> strike row * 10.885 = spot * 1.15
        \<longrightarrow> raw_point days row \<notin> set (chain_points days spot calls))"
  by (auto simp: chain_points_def option_chain_scanner_def raw_point_def mask_def)

theorem band_filter_witness:
  "\<lparr>strike = 1000, impliedVolatility = 0.20\<rparr> \<in> set example_calls
   \<and> raw_point 2 \<lparr>strike = 1000, impliedVolatility = 0.20\<rparr>
        \<in> set (chain_points 2 10885 example_calls)
   \<and> option_chain_scanner example_ticker 100 10885 \<noteq> []
   \<and> list_all (\<lambda>ob. 10885 * 0.85 < obs_y ob \<and> obs_y ob < 10885 * 1.15)
         (option_chain_scanner example_ticker 100 10885)
   \<and> strike \<lparr>strike = 850, impliedVolatility = 0.30\<rparr> * 10.885 = 10885 * 0.85
   \<and> raw_point 2 \<lparr>strike = 850, impliedVolatility = 0.30\<rparr>
        \<notin> set (chain_points 2 10885 example_calls)
   \<and> strike \<lparr>strike = 1150, impliedVolatility = 0.25\<rparr> * 10.885 = 10885 * 1.15
   \<and> raw_point 2 \<lparr>strike = 1150, impliedVolatility = 0.25\<rparr>
        \<notin> set (chain_points 2 10885 example_calls)"
  using band_filter [of "\<lparr>strike = 1000, impliedVolatility = 0.20\<rparr>" example_calls 2 10885
      example_ticker 100]
    band_filter [of "\<lparr>strike = 850, impliedVolatility = 0.30\<rparr>" example_calls 2 10885
      example_ticker 100]
    band_filter [of "\<lparr>strike = 1150, impliedVolatility = 0.25\<rparr>" example_calls 2 10885
      example_ticker 100]
  by (simp add: example_calls_def option_chain_scanner_def scanned_expirations_def
      example_ticker_def chain_points_def mask_def raw_point_def)

subsection \<open>Nearest quotes and the skew\<close>

lemma sorts_positions_first_tie: "sorts_positions argsort_first_tie"
  by (simp add: sorts_positions_def argsort_first_tie_def sorted_sort_key atLeast0LessThan)









subsection \<open>The regime label\<close>

lemma regime_stats_skew:
  assumes "regime_stats argsort df spot = Inr st" "atm_vol st = Some a" "otm_vol st = Some b"
  shows "skew st = b - a"
  using assms
  by (auto simp: regime_stats_def Let_def split: sum.splits if_splits)

text \<open>
  C3. The label is BEARISH exactly when the skew exceeds 0.02, BULLISH exactly when it
  does not and is negative, and NEUTRAL otherwise; a skew of exactly 0.02 is NEUTRAL.
  When \<^verbatim>\<open>otm_vol\<close> exceeds \<^verbatim>\<open>atm_vol\<close> the skew is positive and the label is not
  BULLISH.
\<close>

theorem regime_thresholds:
  "(regime s = ''BEARISH'' \<longleftrightarrow> s > 0.02)
   \<and> (regime s = ''BULLISH'' \<longleftrightarrow> \<not> s > 0.02 \<and> s < 0)
   \<and> (regime s = ''NEUTRAL'' \<longleftrightarrow> \<not> s > 0.02 \<and> \<not> s < 0)
   \<and> regime 0.02 = ''NEUTRAL''
   \<and> (regime_stats argsort df spot = Inr st \<and> atm_vol st = Some a \<and> otm_vol st = Some b
        \<and> b > a
        \<longrightarrow> skew st > 0 \<and> regime (skew st) \<noteq> ''BULLISH'')"
proof -
  have "skew st > 0 \<and> regime (skew st) \<noteq> ''BULLISH''"
    if "regime_stats argsort df spot = Inr st" "atm_vol st = Some a" "otm_vol st = Some b"
      "b > a"
  proof -
    from that have "skew st = b - a" by (simp add: regime_stats_skew)
    with that(4) show ?thesis by (simp add: regime_def)
  qed
  then show ?thesis by (auto simp: regime_def)
qed

theorem regime_thresholds_witness:
  "regime_stats argsort_first_tie scenario_steep 100 =
     Inr \<lparr>atm_vol = Some 0.20, otm_vol = Some 0.30, skew = 0.10\<rparr>
   \<and> (0.30 :: real) > 0.20
   \<and> skew \<lparr>atm_vol = Some 0.20, otm_vol = Some 0.30, skew = 0.10\<rparr> > 0
   \<and> regime 0.10 = ''BEARISH'' \<and> regime 0.10 \<noteq> ''BULLISH''"
  using regime_thresholds [of "0.10" argsort_first_tie scenario_steep 100
      "\<lparr>atm_vol = Some 0.20, otm_vol = Some 0.30, skew = 0.10\<rparr>" "0.20" "0.30"]
  by (simp add: scenario_steep_def regime_stats_def column_x_def nearest_z_def
      argsort_first_tie_def values0_def)

subsection \<open>The scanned expirations\<close>

lemma scanner_member:
  assumes "ob \<in> set (option_chain_scanner t today spot)"
  shows "\<exists>ex \<in> set (scanned_expirations t). obs_x ob = ex - today"
  using assms
  by (auto simp: option_chain_scanner_def chain_points_def raw_point_def)

lemma scanned_expirations_nth:
  assumes "ex \<in> set (scanned_expirations t)"
  shows "\<exists>i. 1 \<le> i \<and> i < 5 \<and> i < length (options t) \<and> ex = options t ! i"
proof -
  from assms obtain j where j: "j < length (take 4 (drop 1 (options t)))"
    "ex = take 4 (drop 1 (options t)) ! j"
    unfolding scanned_expirations_def in_set_conv_nth by blast
  then have "j < 4" "Suc j < length (options t)" by auto
  moreover have "drop 1 (options t) ! j = options t ! (1 + j)"
    using \<open>Suc j < length (options t)\<close> by (intro nth_drop) simp
  with j have "ex = options t ! Suc j" by simp
  ultimately show ?thesis by (intro exI[of _ "Suc j"]) simp
qed

text \<open>
  C5, as the source has it. The \<^verbatim>\<open>x\<close> of every scanned observation is the day
  difference of a listed expiration at one of the positions 1 to 4 (counted from 0):
  the first listed expiration is skipped. The source does not test the sign of the
  difference; it is not negative when no listed expiration lies before the as-of date.
\<close>

theorem scanned_days:
  assumes "ob \<in> set (option_chain_scanner t today spot)"
  shows "(\<exists>i. 1 \<le> i \<and> i < 5 \<and> i < length (options t) \<and> obs_x ob = options t ! i - today)
         \<and> ((\<forall>e \<in> set (options t). today \<le> e) \<longrightarrow> 0 \<le> obs_x ob)"
proof -
  from scanner_member[OF assms] obtain ex
    where ex: "ex \<in> set (scanned_expirations t)" "obs_x ob = ex - today" by blast
  from scanned_expirations_nth[OF ex(1)] obtain i
    where i: "1 \<le> i" "i < 5" "i < length (options t)" "ex = options t ! i" by blast
  have "0 \<le> obs_x ob" if "\<forall>e \<in> set (options t). today \<le> e"
  proof -
    from i(3) have "options t ! i \<in> set (options t)" by simp
    with that have "today \<le> options t ! i" by blast
    with ex(2) i(4) show ?thesis by simp
  qed
  with ex(2) i show ?thesis by blast
qed

theorem scanned_days_witness:
  "\<lparr>obs_x = 5, obs_y = 10885, obs_z = 0.20\<rparr> \<in> set (option_chain_scanner example_ticker 100 10885)
   \<and> list_all (\<lambda>e. 100 \<le> e) (options example_ticker)
   \<and> (\<exists>i. 1 \<le> i \<and> i < 5 \<and> i < length (options example_ticker)
          \<and> obs_x \<lparr>obs_x = 5, obs_y = 10885, obs_z = 0.20\<rparr> = options example_ticker ! i - 100)
   \<and> 0 \<le> obs_x \<lparr>obs_x = 5, obs_y = 10885, obs_z = 0.20\<rparr>"
proof -
  have m: "\<lparr>obs_x = 5, obs_y = 10885, obs_z = 0.20\<rparr>
             \<in> set (option_chain_scanner example_ticker 100 10885)"
    by (simp add: option_chain_scanner_def scanned_expirations_def example_ticker_def
        example_calls_def chain_points_def mask_def raw_point_def)
  have a: "\<forall>e \<in> set (options example_ticker). 100 \<le> e"
    by (simp add: example_ticker_def)
  then have b: "list_all (\<lambda>e. 100 \<le> e) (options example_ticker)"
    by (simp add: list_all_iff)
  from scanned_days [OF m] m a b show ?thesis by blast
qed

text \<open>
  The claim as it is stated fails: with five expirations listed after the as-of date,
  the observation five days out is scanned, and its expiration is not among the four
  nearest.
\<close>

theorem nearest_four_counterexample:
  "\<not> (\<forall>ob \<in> set (option_chain_scanner example_ticker 100 10885).
         100 + obs_x ob \<in> set (nearest_future_expirations 100 (options example_ticker)))"
proof
  assume a: "\<forall>ob \<in> set (option_chain_scanner example_ticker 100 10885).
         100 + obs_x ob \<in> set (nearest_future_expirations 100 (options example_ticker))"
  have "\<lparr>obs_x = 5, obs_y = 10885, obs_z = 0.20\<rparr>
          \<in> set (option_chain_scanner example_ticker 100 10885)"
    by (simp add: option_chain_scanner_def scanned_expirations_def example_ticker_def
        example_calls_def chain_points_def mask_def raw_point_def)
  with a have "100 + obs_x \<lparr>obs_x = 5, obs_y = 10885, obs_z = 0.20\<rparr>
          \<in> set (nearest_future_expirations 100 (options example_ticker))"
    by (rule bspec)
  then show False
    by (simp add: nearest_future_expirations_def example_ticker_def)
qed

subsection \<open>The fitted grid\<close>

lemma rbf_interpolation_Inr:
  assumes "df \<noteq> []"
    and "Rbf (map real_of_int (map obs_x df)) (map obs_y df) (map obs_z df) = Inr r"
  shows "rbf_interpolation df =
     Inr \<lparr>XI = fst (meshgrid
                 (linspace (real_of_int (Min (obs_x ` set df))) (real_of_int (Max (obs_x ` set df))) 30)
                 (linspace (Min (obs_y ` set df)) (Max (obs_y ` set df)) 30)),
          YI = snd (meshgrid
                 (linspace (real_of_int (Min (obs_x ` set df))) (real_of_int (Max (obs_x ` set df))) 30)
                 (linspace (Min (obs_y ` set df)) (Max (obs_y ` set df)) 30)),
          ZI = Rbf_call r
                 (fst (meshgrid
                   (linspace (real_of_int (Min (obs_x ` set df))) (real_of_int (Max (obs_x ` set df))) 30)
                   (linspace (Min (obs_y ` set df)) (Max (obs_y ` set df)) 30)))
                 (snd (meshgrid
                   (linspace (real_of_int (Min (obs_x ` set df))) (real_of_int (Max (obs_x ` set df))) 30)
                   (linspace (Min (obs_y ` set df)) (Max (obs_y ` set df)) 30)))\<rparr>"
  using assms
  by (simp add: rbf_interpolation_def column_x_def Let_def split_def)









subsection \<open>Frames the fit cannot use\<close>




subsection \<open>The empty frame\<close>

text \<open>
  C7, as the source has it. On the empty frame both the fit and the statistics raise
  the \<^verbatim>\<open>KeyError\<close> of the missing column \<^verbatim>\<open>x\<close>, and so does the core; a request
  whose scan finds no observation ends in the \<^verbatim>\<open>except\<close> branch and returns neither
  a grid nor metrics.
\<close>

theorem empty_frame_fails:
  "regime_stats argsort [] spot = Inl (KeyError ''x'')
   \<and> rbf_interpolation [] = Inl (KeyError ''x'')
   \<and> quant_core argsort [] spot = Inl (KeyError ''x'')
   \<and> (data_ingestion manual_price t = Inr (spot, src)
        \<and> option_chain_scanner t today spot = []
        \<longrightarrow> update_surface argsort n manual_price lock_clicks relayout t today
              = Inl (KeyError ''x''))"
  by (simp add: regime_stats_def rbf_interpolation_def quant_core_def column_x_def
      update_surface_def)

theorem empty_frame_fails_witness:
  "data_ingestion None empty_ticker = Inr (10885, ''FEED'')
   \<and> option_chain_scanner empty_ticker 100 10885 = []
   \<and> update_surface argsort_first_tie 1 None 0 None empty_ticker 100 = Inl (KeyError ''x'')"
proof -
  have a: "data_ingestion None empty_ticker = Inr (10885, ''FEED'')"
    by (simp add: data_ingestion_def truthy_def iloc_last_def empty_ticker_def)
  have b: "option_chain_scanner empty_ticker 100 10885 = []"
    by (simp add: option_chain_scanner_def scanned_expirations_def empty_ticker_def)
  from empty_frame_fails [of argsort_first_tie 10885 None empty_ticker "''FEED''" 100 1 0 None]
    a b
  show ?thesis by blast
qed

text \<open>
  The claim as it is stated fails: the errors raised on the empty frame are not the
  two kinds it names.
\<close>

theorem empty_frame_counterexample:
  "regime_stats argsort_first_tie [] 100 \<noteq> Inl NoNearTermDataError
   \<and> rbf_interpolation [] \<noteq> Inl InsufficientDataError"
  by (simp add: regime_stats_def rbf_interpolation_def column_x_def)

subsection \<open>Determinism of the core\<close>

lemma update_surface_core:
  assumes "data_ingestion manual_price t = Inr (spot, src)"
  shows "map_sum id (\<lambda>(f, m). (surface f, m))
           (update_surface argsort n manual_price lock_clicks relayout t today)
         = quant_core argsort (option_chain_scanner t today spot) spot"
  using assms
  by (simp add: update_surface_def Let_def split: sum.splits prod.splits)

text \<open>
  C9. The grid and the metrics of a request are the value of the core on its
  observations and its spot, and of nothing else: two requests with the same
  observations and the same spot return the same grid and the same metrics (or the same
  error), whatever their click counts, their camera state, and the source of the spot.
\<close>

theorem core_deterministic:
  assumes "data_ingestion manual_price1 t1 = Inr (spot, src1)"
    and "data_ingestion manual_price2 t2 = Inr (spot, src2)"
    and "option_chain_scanner t1 today1 spot = option_chain_scanner t2 today2 spot"
  shows "map_sum id (\<lambda>(f, m). (surface f, m))
           (update_surface argsort n1 manual_price1 lock_clicks1 relayout1 t1 today1)
         = map_sum id (\<lambda>(f, m). (surface f, m))
           (update_surface argsort n2 manual_price2 lock_clicks2 relayout2 t2 today2)"
  using assms by (simp add: update_surface_core)

lemma scanner_example:
  "option_chain_scanner example_ticker 100 10885 = scanned_example"
  by (simp add: option_chain_scanner_def scanned_expirations_def example_ticker_def
      example_calls_def chain_points_def mask_def raw_point_def scanned_example_def)

lemma core_example: "\<not> isl (quant_core argsort_first_tie scanned_example 10885)"
proof -
  have ne: "scanned_example \<noteq> []" by (simp add: scanned_example_def)
  have "\<not> isl (Rbf (map real_of_int (map obs_x scanned_example)) (map obs_y scanned_example)
               (map obs_z scanned_example))"
    by (simp add: scanned_example_def Rbf_def linalg_solve_def kernel_matrix_def euclidean_def
        eliminate_def dot_def)
  then obtain r where
    "Rbf (map real_of_int (map obs_x scanned_example)) (map obs_y scanned_example)
       (map obs_z scanned_example) = Inr r"
    by (cases "Rbf (map real_of_int (map obs_x scanned_example)) (map obs_y scanned_example)
                 (map obs_z scanned_example)") auto
  from rbf_interpolation_Inr[OF ne this] obtain g
    where g: "rbf_interpolation scanned_example = Inr g" by blast
  have st: "regime_stats argsort_first_tie scanned_example 10885
              = Inr \<lparr>atm_vol = Some 0.20, otm_vol = Some 0.20, skew = 0\<rparr>"
    by (simp add: scanned_example_def regime_stats_def column_x_def nearest_z_def
        argsort_first_tie_def values0_def Let_def)
  show ?thesis
    by (simp add: quant_core_def g st metrics_output_def)
qed

theorem core_deterministic_witness:
  "data_ingestion (Some 10885) example_ticker = Inr (10885, ''MANUAL'')
   \<and> data_ingestion None example_ticker = Inr (10885, ''FEED'')
   \<and> map_sum id (\<lambda>(f, m). (surface f, m))
        (update_surface argsort_first_tie 1 (Some 10885) 0 None example_ticker 100)
      = map_sum id (\<lambda>(f, m). (surface f, m))
        (update_surface argsort_first_tie 2 None 1 (Some [''scene.camera'' \<mapsto> (1.8, 1.8, 0.8)])
           example_ticker 100)
   \<and> \<not> isl (update_surface argsort_first_tie 1 (Some 10885) 0 None example_ticker 100)"
proof -
  have a: "data_ingestion (Some 10885) example_ticker = Inr (10885, ''MANUAL'')"
    by (simp add: data_ingestion_def truthy_def)
  have b: "data_ingestion None example_ticker = Inr (10885, ''FEED'')"
    by (simp add: data_ingestion_def truthy_def iloc_last_def example_ticker_def)
  have "isl (map_sum id (\<lambda>(f, m). (surface f, m))
               (update_surface argsort_first_tie 1 (Some 10885) 0 None example_ticker 100))
        = isl (quant_core argsort_first_tie scanned_example 10885)"
    by (simp only: update_surface_core[OF a] scanner_example)
  with core_example
  have c: "\<not> isl (update_surface argsort_first_tie 1 (Some 10885) 0 None example_ticker 100)"
    by (cases "update_surface argsort_first_tie 1 (Some 10885) 0 None example_ticker 100") auto
  from core_deterministic [OF a b refl] a b c show ?thesis by blast
qed

subsection \<open>Exact interpolation\<close>

lemma argmax_abs_less: "xs \<noteq> [] \<Longrightarrow> argmax_abs xs < length xs"
  by (induction xs rule: argmax_abs.induct) (auto simp: Let_def)

lemma dot_Cons: "dot (a # u) (b # v) = a * b + dot u v"
  by (simp add: dot_def)

lemma dot_eliminate:
  assumes "length u = length v" "length v = length w"
  shows "dot (map2 (\<lambda>a b. b - f * a) u v) w = dot v w - f * dot u w"
  using assms
  by (induction u v w rule: list_induct3) (simp_all add: dot_def algebra_simps)

lemma solve_rows_sound:
  assumes "solve_rows n rows = Some ws" "length rows = n"
    and "\<forall>r \<in> set rows. length (fst r) = n"
  shows "length ws = n \<and> (\<forall>r \<in> set rows. dot (fst r) ws = snd r)"
  using assms
proof (induction n arbitrary: rows ws)
  case 0
  then show ?case by (simp add: dot_def)
next
  case (Suc n)
  let ?k = "argmax_abs (map (\<lambda>r. hd (fst r)) rows)"
  let ?p = "rows ! ?k"
  let ?rest = "take ?k rows @ drop (Suc ?k) rows"
  from Suc.prems(2) have ne: "rows \<noteq> []" by auto
  then have k: "?k < length rows" using argmax_abs_less[of "map (\<lambda>r. hd (fst r)) rows"] by simp
  from Suc.prems(1) ne have piv: "hd (fst ?p) \<noteq> 0"
    by (auto simp: Let_def split: if_splits)
  from Suc.prems(1) ne piv obtain ws' where
    rec: "solve_rows n (map (eliminate ?p) ?rest) = Some ws'"
    and ws: "ws = (snd ?p - dot (tl (fst ?p)) ws') / hd (fst ?p) # ws'"
    by (auto simp: Let_def split: option.splits)
  have rows_split: "rows = take ?k rows @ ?p # drop (Suc ?k) rows"
    using k by (simp add: id_take_nth_drop)
  have len_rest: "length ?rest = n" using k Suc.prems(2) by simp
  have set_rows: "set rows = insert ?p (set ?rest)"
    by (subst rows_split) auto
  have p_in: "?p \<in> set rows" using k by simp
  have lenp: "length (fst ?p) = Suc n" using Suc.prems(3) p_in by blast
  have lenr: "length (fst r) = Suc n" if "r \<in> set ?rest" for r
    using Suc.prems(3) set_rows that by blast
  have "length (fst (eliminate ?p r)) = n" if "r \<in> set ?rest" for r
    using lenp lenr[OF that] by (simp add: eliminate_def Let_def)
  then have "\<forall>r \<in> set (map (eliminate ?p) ?rest). length (fst r) = n"
    by (simp only: set_map ball_simps) blast
  with Suc.IH[OF rec] len_rest
  have IH: "length ws' = n" "\<forall>r \<in> set (map (eliminate ?p) ?rest). dot (fst r) ws' = snd r"
    by simp_all
  let ?x0 = "(snd ?p - dot (tl (fst ?p)) ws') / hd (fst ?p)"
  have row_dot: "dot c ws = hd c * ?x0 + dot (tl c) ws'" if "length c = Suc n" for c
    using that ws by (cases c) (simp_all add: dot_Cons)
  have eq_p: "dot (fst ?p) ws = snd ?p"
    using row_dot[OF lenp] piv by simp
  have eq_r: "dot (fst r) ws = snd r" if r: "r \<in> set ?rest" for r
  proof -
    let ?f = "hd (fst r) / hd (fst ?p)"
    have "eliminate ?p r \<in> set (map (eliminate ?p) ?rest)"
      using r by (simp only: set_map) (rule imageI)
    with IH(2) have "dot (fst (eliminate ?p r)) ws' = snd (eliminate ?p r)"
      by blast
    moreover have "dot (fst (eliminate ?p r)) ws'
        = dot (tl (fst r)) ws' - ?f * dot (tl (fst ?p)) ws'"
    proof -
      have "fst (eliminate ?p r) = map2 (\<lambda>a b. b - ?f * a) (tl (fst ?p)) (tl (fst r))"
        by (simp only: eliminate_def Let_def fst_conv)
      moreover have "length (tl (fst ?p)) = length (tl (fst r))"
        "length (tl (fst r)) = length ws'"
        using lenp lenr[OF r] IH(1) by simp_all
      ultimately show ?thesis by (simp only: dot_eliminate)
    qed
    moreover have "snd (eliminate ?p r) = snd r - ?f * snd ?p"
      by (simp add: eliminate_def Let_def)
    ultimately have "dot (tl (fst r)) ws' = snd r - ?f * (snd ?p - dot (tl (fst ?p)) ws')"
      by (simp add: algebra_simps)
    also have "\<dots> = snd r - hd (fst r) * ?x0" by simp
    finally show ?thesis using row_dot[OF lenr[OF r]] by simp
  qed
  have "length ws = Suc n" using ws IH(1) by simp
  moreover have "\<forall>r \<in> set rows. dot (fst r) ws = snd r"
    using set_rows eq_p eq_r by auto
  ultimately show ?case by blast
qed

lemma linalg_solve_sound:
  assumes "linalg_solve A b = Some ws" "length b = length A"
    and "\<forall>row \<in> set A. length row = length A" "i < length A"
  shows "dot (A ! i) ws = b ! i"
proof -
  have "\<forall>r \<in> set (zip A b). length (fst r) = length A"
    using assms(3) by (auto dest: set_zip_leftD)
  with assms(1,2) have "\<forall>r \<in> set (zip A b). dot (fst r) ws = snd r"
    using solve_rows_sound[of "length A" "zip A b" ws] by (simp add: linalg_solve_def)
  moreover have "(A ! i, b ! i) \<in> set (zip A b)"
    using assms(2,4) by (auto simp: set_zip)
  ultimately show ?thesis by auto
qed

lemma Rbf_exact:
  assumes "Rbf xs ys ds = Inr r" "i < length ds"
  shows "Rbf_at r (xs ! i) (ys ! i) = ds ! i"
proof -
  let ?ps = "zip xs ys"
  from assms(1) have len: "length xs = length ds" "length ys = length ds"
    by (auto simp: Rbf_def split: if_splits)
  with assms(1) obtain ws where ws: "linalg_solve (kernel_matrix ?ps) ds = Some ws"
    and r: "r = \<lparr>xi = ?ps, nodes = ws\<rparr>"
    by (auto simp: Rbf_def Let_def split: option.splits)
  have lenA: "length (kernel_matrix ?ps) = length ds" using len by (simp add: kernel_matrix_def)
  have sq: "\<forall>row \<in> set (kernel_matrix ?ps). length row = length (kernel_matrix ?ps)"
    by (auto simp: kernel_matrix_def)
  have "dot (kernel_matrix ?ps ! i) ws = ds ! i"
    using linalg_solve_sound[OF ws _ sq] lenA assms(2) by simp
  moreover have "kernel_matrix ?ps ! i = map (euclidean (xs ! i, ys ! i)) ?ps"
    using assms(2) len by (simp add: kernel_matrix_def)
  ultimately show ?thesis by (simp add: Rbf_at_def r)
qed

text \<open>
  C1. Whenever the interpolant is built on the observations of a frame, its value at
  the \<^verbatim>\<open>(x, y)\<close> of every observation is the \<^verbatim>\<open>z\<close> of that observation. In the exact
  arithmetic of the model the two are equal, hence within every tolerance.
\<close>

theorem exact_interpolation:
  assumes "Rbf (map real_of_int (map obs_x df)) (map obs_y df) (map obs_z df) = Inr r"
    and "ob \<in> set df"
  shows "Rbf_at r (real_of_int (obs_x ob)) (obs_y ob) = obs_z ob"
proof -
  from assms(2) obtain i where i: "i < length df" "df ! i = ob"
    by (auto simp: in_set_conv_nth)
  with Rbf_exact[OF assms(1), of i] show ?thesis by simp
qed

theorem exact_interpolation_witness:
  "Rbf (map real_of_int (map obs_x two_quotes)) (map obs_y two_quotes)
          (map obs_z two_quotes)
       = Inr \<lparr>xi = [(1, 100), (4, 104)], nodes = [0.22 / 5, 0.20 / 5]\<rparr>
   \<and> \<lparr>obs_x = 4, obs_y = 104, obs_z = 0.22\<rparr> \<in> set two_quotes
   \<and> Rbf_at \<lparr>xi = [(1, 100), (4, 104)], nodes = [0.22 / 5, 0.20 / 5]\<rparr> 4 104 = 0.22"
proof -
  have fit: "Rbf (map real_of_int (map obs_x two_quotes)) (map obs_y two_quotes)
               (map obs_z two_quotes)
             = Inr \<lparr>xi = [(1, 100), (4, 104)], nodes = [0.22 / 5, 0.20 / 5]\<rparr>"
    by (simp add: two_quotes_def Rbf_def linalg_solve_def kernel_matrix_def euclidean_def
        eliminate_def dot_def)
  have m: "\<lparr>obs_x = 4, obs_y = 104, obs_z = 0.22\<rparr> \<in> set two_quotes"
    by (simp add: two_quotes_def)
  from exact_interpolation [OF fit m] fit m show ?thesis by simp
qed

end
